theory Spec2Isabelle
  imports Main "HOL-Library.Dlist" "HOL-Library.AList" "HOL-Library.Word"
begin

section \<open>JavaScript values\<close>

text \<open>
  The values that reach \<open>services/rest.js\<close>. A number among the args is
  integer-valued (a photo id); an array or a Set holds strings, the element type of an \<open>extras\<close>
  collection; \<open>JObject\<close> is any object that is neither an Array nor a Set, its
  properties play no part here. A function carries what it computes, so the type of
  values is parametrised by the type of functions. A Set keeps its elements in insertion
  order and never twice: a distinct list.
\<close>

datatype 'f js =
    JUndefined
  | JNull
  | JBool bool
  | JNum int
  | JStr string
  | JArray "string list"
  | JSet "string dlist"
  | JObject
  | JFunction 'f

fun typeof :: "'f js \<Rightarrow> string" where
  "typeof JUndefined = ''undefined''"
| "typeof JNull = ''object''"
| "typeof (JBool b) = ''boolean''"
| "typeof (JNum n) = ''number''"
| "typeof (JStr s) = ''string''"
| "typeof (JArray xs) = ''object''"
| "typeof (JSet s) = ''object''"
| "typeof JObject = ''object''"
| "typeof (JFunction f) = ''function''"

fun Array_isArray :: "'f js \<Rightarrow> bool" where
  "Array_isArray (JArray xs) = True"
| "Array_isArray v = False"

fun instanceof_Set :: "'f js \<Rightarrow> bool" where
  "instanceof_Set (JSet s) = True"
| "instanceof_Set v = False"

text \<open>ToBoolean, as the conditions \<open>if (v)\<close> and \<open>v || d\<close> apply it.\<close>

fun truthy :: "'f js \<Rightarrow> bool" where
  "truthy JUndefined = False"
| "truthy JNull = False"
| "truthy (JBool b) = b"
| "truthy (JNum n) = (n \<noteq> 0)"
| "truthy (JStr s) = (s \<noteq> [])"
| "truthy v = True"

subsection \<open>Strings: \<open>split\<close>, \<open>join\<close>, and numbers in decimal\<close>

text \<open>\<open>s.split(c)\<close> for a one-character separator: one more piece than separators.\<close>

fun split :: "char \<Rightarrow> string \<Rightarrow> string list" where
  "split c [] = [[]]"
| "split c (x # xs) =
     (if x = c then [] # split c xs
      else (case split c xs of [] \<Rightarrow> [[x]] | w # ws \<Rightarrow> (x # w) # ws))"

text \<open>\<open>xs.join(sep)\<close> on an array of strings.\<close>

fun join :: "string \<Rightarrow> string list \<Rightarrow> string" where
  "join sep [] = []"
| "join sep [x] = x"
| "join sep (x # y # zs) = x @ sep @ join sep (y # zs)"

definition digit_char :: "nat \<Rightarrow> char" where
  "digit_char d = ''0123456789'' ! d"

function string_of_nat :: "nat \<Rightarrow> string" where
  "string_of_nat n =
     (if n < 10 then [digit_char n]
      else string_of_nat (n div 10) @ [digit_char (n mod 10)])"
  by pat_completeness auto
termination
  by (relation "measure id") auto

declare string_of_nat.simps [simp del]

text \<open>
  A number that is printed: an integer from \<open>-2\<^sup>5\<^sup>3\<close> to \<open>2\<^sup>5\<^sup>3 - 1\<close>, the value
  \<open>sint n\<close> of a 54-bit word. These are integers a JavaScript number holds exactly
  and prints as their decimal digits; beyond them the digits are rounded, and from
  \<open>10\<^sup>2\<^sup>1\<close> on the exponent form is printed, which is not modelled.
\<close>

type_synonym number = "54 word"

text \<open>ToString of such a number, as \<open>':' + opts.port\<close> applies it.\<close>

definition Number_toString :: "number \<Rightarrow> string" where
  "Number_toString n =
     (if sint n < 0 then ''-'' @ string_of_nat (nat (- sint n))
      else string_of_nat (nat (sint n)))"

subsection \<open>Sets\<close>

definition Set_empty :: "'a dlist" where
  "Set_empty = Dlist []"

text \<open>\<open>s.add(x)\<close>: an element already in the Set keeps its place.\<close>

definition Set_add :: "'a \<Rightarrow> 'a dlist \<Rightarrow> 'a dlist" where
  "Set_add x s =
     (if x \<in> set (list_of_dlist s) then s else Dlist (list_of_dlist s @ [x]))"

text \<open>\<open>new Set(xs)\<close> adds the elements of the array from left to right.\<close>

definition new_Set :: "'a list \<Rightarrow> 'a dlist" where
  "new_Set xs = fold Set_add xs Set_empty"

definition Array_from :: "'a dlist \<Rightarrow> 'a list" where
  "Array_from s = list_of_dlist s"

text \<open>The same insertion on plain lists, to compute with.\<close>

definition add_once :: "'a \<Rightarrow> 'a list \<Rightarrow> 'a list" where
  "add_once x ys = (if x \<in> set ys then ys else ys @ [x])"

section \<open>Errors\<close>

text \<open>
  The source throws \<open>new Error(message)\<close> and nothing else. The two kinds the
  specification names are told apart by their messages.
\<close>

datatype error = Error string

definition InvalidArgumentType :: "string \<Rightarrow> error" where
  \<open>InvalidArgumentType name = Error (''Invalid type for argument "'' @ name @ ''"'')\<close>

definition MissingRequiredArgument :: "string \<Rightarrow> error" where
  \<open>MissingRequiredArgument name = Error (''Missing required argument "'' @ name @ ''"'')\<close>

section \<open>The request object\<close>

type_synonym jsval = "unit js"

type_synonym args = "(string \<times> jsval) list"

text \<open>
  Modelled from the spec: the request object of \<open>lib/request\<close>, which is not among
  the sources. It holds the verb, the target URL, the query parameters in the order
  they were attached, the headers a decorator may add, and whether the response is to
  be read as JSON.
\<close>

record request =
  req_verb :: string
  req_url :: string
  req_query :: "(string \<times> jsval) list"
  req_headers :: "(string \<times> string) list"
  req_json :: bool

type_synonym plugin = "request \<Rightarrow> request"

text \<open>
  Modelled from the spec: \<open>lib/request\<close> is not among the sources. The outgoing
  request holds its verb, its target URL and its query parameters; a parameter is
  attached behind those already there, and the request is only assembled, never sent.
\<close>

definition request :: "string \<Rightarrow> string \<Rightarrow> request" where
  "request verb url =
     \<lparr>req_verb = verb, req_url = url, req_query = [], req_headers = [], req_json = False\<rparr>"

text \<open>
  Modelled from the spec: the request's \<open>query\<close> method of \<open>lib/request\<close>, which
  attaches every entry of an object as a query parameter.
\<close>

definition query :: "args \<Rightarrow> request \<Rightarrow> request" where
  "query obj req = req\<lparr>req_query := req_query req @ obj\<rparr>"

text \<open>
  Modelled from the spec: the query parameters of a request are a mapping from names to
  values, as the args are. \<open>req_query\<close> keeps what was attached, in order; a name
  that was attached twice has the value attached last.
\<close>

definition param :: "request \<Rightarrow> string \<Rightarrow> jsval option" where
  "param req name = map_of (rev (req_query req)) name"

text \<open>
  Modelled from the spec: the request's \<open>use\<close> method of \<open>lib/request\<close>. A
  decorator takes a request and returns the request it has changed; attaching it
  applies it, once.
\<close>

definition use :: "plugin \<Rightarrow> request \<Rightarrow> request" where
  "use p req = p req"

text \<open>
  Modelled from the spec: \<open>plugins/json\<close> is not among the sources. The
  response-parsing decorator tells the transport to read the response body as the remote
  service's JSON envelope.
\<close>

definition json :: plugin where
  "json req = req\<lparr>req_json := True\<rparr>"

section \<open>\<open>services/rest.js\<close>\<close>

definition createAPIKeyPlugin :: "string \<Rightarrow> plugin" where
  "createAPIKeyPlugin str = (\<lambda>req. query [(''api_key'', JStr str)] req)"

text \<open>
  The three \<open>if\<close> statements after the type check run one after the other on the
  reassigned variable; a function body that ends without \<open>return\<close> gives
  \<open>undefined\<close>.
\<close>

definition processExtras :: "'f js \<Rightarrow> error + 'f js" where
  \<open>processExtras extras =
     (if typeof extras \<noteq> ''string'' \<and> \<not> Array_isArray extras \<and> \<not> instanceof_Set extras
      then Inl (Error ''Invalid type for argument "extras"'')
      else
        let extras1 = (case extras of JStr s \<Rightarrow> JArray (split CHR '','' s) | _ \<Rightarrow> extras);
            extras2 = (case extras1 of JArray xs \<Rightarrow> JSet (new_Set xs) | _ \<Rightarrow> extras1)
        in (case extras2 of
              JSet s \<Rightarrow> Inr (JStr (join '','' (Array_from s)))
            | _ \<Rightarrow> Inr JUndefined))\<close>

text \<open>Reading a property of an object: \<open>undefined\<close> when the object has no such key.\<close>

definition get_prop :: "args \<Rightarrow> string \<Rightarrow> jsval" where
  "get_prop obj k = (case map_of obj k of None \<Rightarrow> JUndefined | Some v \<Rightarrow> v)"

text \<open>
  The options, as the configuration is documented: \<open>host\<close> a string, \<open>port\<close> an
  integer, each of them \<open>None\<close> when the object has no such property. The empty
  string and the number 0 are the falsy values of these types. The port is appended to
  the host as text, so it is a number that is printed as its digits.
\<close>

record opts =
  host :: "string option"
  port :: "number option"

type_synonym client = "string \<Rightarrow> string \<Rightarrow> args option \<Rightarrow> error + request"

text \<open>
  The function \<open>createClient\<close> returns, with the two variables it closes over: the
  \<open>auth\<close> plugin and the \<open>host\<close> string. \<open>args\<close> is an object or
  \<open>undefined\<close>, which is \<open>None\<close>. The assignment to \<open>args.extras\<close> keeps the
  key where it is among the entries of the object.
\<close>

definition build :: "plugin \<Rightarrow> string \<Rightarrow> client" where
  "build auth hst verb method args =
     (let args1 = (case args of None \<Rightarrow> [] | Some a \<Rightarrow> a) in
      case (if truthy (get_prop args1 ''extras'')
            then (case processExtras (get_prop args1 ''extras'') of
                    Inl e \<Rightarrow> Inl e
                  | Inr v \<Rightarrow> Inr (AList.update ''extras'' v args1))
            else Inr args1) of
        Inl e \<Rightarrow> Inl e
      | Inr args2 \<Rightarrow>
          Inr (use auth (use json (query args2 (query [(''method'', JStr method)]
                 (request verb (''https://'' @ hst @ ''/services/rest'')))))))"

definition createClient :: "plugin js \<Rightarrow> opts option \<Rightarrow> error + client" where
  \<open>createClient auth opts =
     (let auth1 = (case auth of JStr str \<Rightarrow> JFunction (createAPIKeyPlugin str) | _ \<Rightarrow> auth) in
      case auth1 of
        JFunction f \<Rightarrow>
          (let opts1 = (case opts of None \<Rightarrow> \<lparr>host = None, port = None\<rparr> | Some given \<Rightarrow> given);
               host0 = (case host opts1 of
                          None \<Rightarrow> ''api.flickr.com''
                        | Some h \<Rightarrow> if h \<noteq> [] then h else ''api.flickr.com'');
               host1 = (case port opts1 of
                          None \<Rightarrow> host0
                        | Some p \<Rightarrow> if p \<noteq> 0 then host0 @ '':'' @ Number_toString p else host0)
           in Inr (build f host1))
      | _ \<Rightarrow> Inl (Error ''Missing required argument "auth"''))\<close>

text \<open>
  \<open>createClient(auth, opts)(verb, method, args)\<close>: calling the client a construction
  gave. A construction that threw gives no client to call, and its error is the outcome.
\<close>

definition call :: "error + client \<Rightarrow> string \<Rightarrow> string \<Rightarrow> args option \<Rightarrow> error + request" where
  "call made verb method args =
     (case made of Inl e \<Rightarrow> Inl e | Inr this_client \<Rightarrow> this_client verb method args)"

text \<open>
  The constructor. \<open>is_new\<close> is \<open>this instanceof Flickr\<close>: false when \<open>Flickr\<close>
  is called without \<open>new\<close>. Every namespace of the object gets the one client as its
  \<open>_\<close>, so the object is that client.
\<close>

function Flickr :: "bool \<Rightarrow> plugin js \<Rightarrow> opts option \<Rightarrow> error + client" where
  "Flickr is_new auth opts =
     (if \<not> is_new then Flickr True auth None else createClient auth opts)"
  by pat_completeness auto
termination
  by (relation "measure (\<lambda>(is_new, auth, opts). if is_new then 0 else 1)") auto

declare Flickr.simps [simp del]

text \<open>
  Modelled from the spec: what \<open>lib/validate\<close>, which is not among the sources, takes
  for a parameter that is present in \<open>args\<close>: the args has an entry of that name.
  An omitted \<open>args\<close> has none.
\<close>

definition has_param :: "args option \<Rightarrow> string \<Rightarrow> bool" where
  "has_param args name = (case args of None \<Rightarrow> False | Some a \<Rightarrow> map_of a name \<noteq> None)"

text \<open>
  Modelled from the spec: \<open>lib/validate\<close> is not among the sources.
  \<open>validate(args, name)\<close> checks that the name is present in \<open>args\<close>; when it is
  absent the call fails with a \<open>MissingRequiredArgument\<close> error naming it.
\<close>

definition validate :: "args option \<Rightarrow> string \<Rightarrow> error + unit" where
  "validate args name =
     (if has_param args name then Inr () else Inl (MissingRequiredArgument name))"

text \<open>
  The shape of each of the 221 methods on the prototype: a \<open>validate(args, name)\<close>
  for each required parameter, in the order they are declared, then
  \<open>return this._(verb, method, args)\<close>. \<open>this._\<close> is the first argument after the
  three that tell the methods apart.
\<close>

fun operation :: "string \<Rightarrow> string \<Rightarrow> string list \<Rightarrow> client \<Rightarrow> args option \<Rightarrow> error + request" where
  "operation verb method [] this_client args = this_client verb method args"
| "operation verb method (name # names) this_client args =
     (case validate args name of
        Inl e \<Rightarrow> Inl e
      | Inr u \<Rightarrow> operation verb method names this_client args)"

text \<open>\<open>Flickr.prototype.photos.getInfo\<close>, with \<open>this._\<close> as its first argument.\<close>

definition photos_getInfo :: "client \<Rightarrow> args option \<Rightarrow> error + request" where
  "photos_getInfo this_client args =
     (case validate args ''photo_id'' of
        Inl e \<Rightarrow> Inl e
      | Inr u \<Rightarrow> this_client ''GET'' ''flickr.photos.getInfo'' args)"

text \<open>\<open>Flickr.prototype.blogs.postPhoto\<close>, which declares three.\<close>

definition blogs_postPhoto :: "client \<Rightarrow> args option \<Rightarrow> error + request" where
  "blogs_postPhoto this_client args =
     (case validate args ''photo_id'' of
        Inl e \<Rightarrow> Inl e
      | Inr u \<Rightarrow>
          (case validate args ''title'' of
             Inl e \<Rightarrow> Inl e
           | Inr u \<Rightarrow>
               (case validate args ''description'' of
                  Inl e \<Rightarrow> Inl e
                | Inr u \<Rightarrow> this_client ''POST'' ''flickr.blogs.postPhoto'' args)))"

text \<open>
  The auth plugin contract of the specification: the plugin takes a request and returns
  it with credential material added. What it adds is its own affair; the target stays
  and no query parameter is lost.
\<close>

definition keeps_request :: "plugin \<Rightarrow> bool" where
  "keeps_request p \<longleftrightarrow>
     (\<forall>q. req_url (p q) = req_url q \<and> set (req_query q) \<subseteq> set (req_query (p q)))"

section \<open>Sets, \<open>split\<close> and \<open>join\<close>\<close>

lemma list_of_Set_add: "list_of_dlist (Set_add x s) = add_once x (list_of_dlist s)"
  by (simp add: Set_add_def add_once_def distinct_remdups_id)

lemma list_of_fold_Set_add:
  "list_of_dlist (fold Set_add xs s) = fold add_once xs (list_of_dlist s)"
  by (induction xs arbitrary: s) (simp_all add: list_of_Set_add)

lemma Array_from_new_Set: "Array_from (new_Set xs) = fold add_once xs []"
  by (simp add: Array_from_def new_Set_def Set_empty_def list_of_fold_Set_add)




lemma split_not_Nil: "split c s \<noteq> []"
  by (induction s) (auto split: list.splits)





lemma join_split: "join [c] (split c s) = s"
proof (induction s)
  case Nil
  then show ?case by simp
next
  case (Cons x xs)
  then show ?case
    by (cases "split c xs"; cases "tl (split c xs)") (auto simp: split_not_Nil)
qed


section \<open>The normalizer and the builder, case by case\<close>




lemma processExtras_invalid:
  "typeof v \<noteq> ''string'' \<Longrightarrow> \<not> Array_isArray v \<Longrightarrow> \<not> instanceof_Set v \<Longrightarrow>
   processExtras v = Inl (InvalidArgumentType ''extras'')"
  by (simp add: processExtras_def InvalidArgumentType_def)

lemma processExtras_total:
  "typeof v = ''string'' \<or> Array_isArray v \<or> instanceof_Set v \<Longrightarrow>
   \<exists>s. processExtras v = Inr (JStr s)"
  by (cases v) (simp_all add: processExtras_def)

lemma build_extras_falsy:
  "\<not> truthy (get_prop a ''extras'') \<Longrightarrow>
   build f hst verb m (Some a) =
     Inr (f \<lparr>req_verb = verb, req_url = ''https://'' @ hst @ ''/services/rest'',
             req_query = (''method'', JStr m) # a, req_headers = [], req_json = True\<rparr>)"
  by (simp add: build_def use_def json_def query_def request_def)

lemma build_extras_error:
  "truthy (get_prop a ''extras'') \<Longrightarrow> processExtras (get_prop a ''extras'') = Inl e \<Longrightarrow>
   build f hst verb m (Some a) = Inl e"
  by (simp add: build_def)

lemma build_extras_value:
  "truthy (get_prop a ''extras'') \<Longrightarrow> processExtras (get_prop a ''extras'') = Inr v \<Longrightarrow>
   build f hst verb m (Some a) =
     Inr (f \<lparr>req_verb = verb, req_url = ''https://'' @ hst @ ''/services/rest'',
             req_query = (''method'', JStr m) # AList.update ''extras'' v a,
             req_headers = [], req_json = True\<rparr>)"
  by (simp add: build_def use_def json_def query_def request_def)

lemma build_omitted: "build f hst verb m None = build f hst verb m (Some [])"
  by (simp add: build_def)

lemma createClient_JStr:
  "createClient (JStr key) opts = createClient (JFunction (createAPIKeyPlugin key)) opts"
  by (simp add: createClient_def)

lemma createClient_JFunction: "\<exists>hst. createClient (JFunction f) opts = Inr (build f hst)"
  by (simp add: createClient_def Let_def) blast

lemma createClient_plugin:
  assumes "createClient auth opts = Inr this_client"
    and "auth = JFunction f \<or> auth = JStr key \<and> f = createAPIKeyPlugin key"
  shows "\<exists>hst. this_client = build f hst"
  using assms createClient_JFunction [of f opts] by (auto simp: createClient_JStr)

lemma createClient_no_opts:
  "createClient (JFunction f) None = Inr (build f ''api.flickr.com'')"
  by (simp add: createClient_def)

lemma createClient_opts:
  "createClient (JFunction f) (Some \<lparr>host = h, port = p\<rparr>) =
     Inr (build f
       ((case h of None \<Rightarrow> ''api.flickr.com''
         | Some x \<Rightarrow> if x \<noteq> [] then x else ''api.flickr.com'') @
        (case p of None \<Rightarrow> [] | Some n \<Rightarrow> if n \<noteq> 0 then '':'' @ Number_toString n else [])))"
  by (simp add: createClient_def split: option.splits)

lemma build_url:
  assumes "build f hst verb m args = Inr r" and "\<forall>q. req_url (f q) = req_url q"
  shows "req_url r = ''https://'' @ hst @ ''/services/rest''"
  using assms
  by (auto simp: build_def use_def json_def query_def request_def Let_def
      split: if_splits sum.splits option.splits)

lemma createAPIKeyPlugin_url: "req_url (createAPIKeyPlugin key q) = req_url q"
  by (simp add: createAPIKeyPlugin_def query_def)

lemma keeps_request_api_key: "keeps_request (createAPIKeyPlugin key)"
  by (auto simp: keeps_request_def createAPIKeyPlugin_def query_def)


lemma call_Inr: "call (Inr c) verb m args = c verb m args"
  by (simp add: call_def)

lemma build_result:
  "build f hst verb m args = Inl (InvalidArgumentType ''extras'')
   \<or> (\<exists>a2. build f hst verb m args =
         Inr (f \<lparr>req_verb = verb, req_url = ''https://'' @ hst @ ''/services/rest'',
                 req_query = (''method'', JStr m) # a2, req_headers = [], req_json = True\<rparr>)
       \<and> map fst a2 = map fst (case args of None \<Rightarrow> [] | Some a \<Rightarrow> a))"
proof -
  define a where "a = (case args of None \<Rightarrow> [] | Some a \<Rightarrow> a)"
  have b: "build f hst verb m args = build f hst verb m (Some a)"
    by (cases args) (simp_all add: a_def build_omitted)
  let ?e = "get_prop a ''extras''"
  show ?thesis
  proof (cases "truthy ?e")
    case False
    then show ?thesis
      unfolding b a_def [symmetric]
      by (intro disjI2 exI [of _ a]) (simp add: build_extras_falsy)
  next
    case True
    then have key: "''extras'' \<in> fst ` set a"
      by (cases "map_of a ''extras''") (auto simp: get_prop_def dest: map_of_SomeD intro: rev_image_eqI)
    show ?thesis
    proof (cases "typeof ?e = ''string'' \<or> Array_isArray ?e \<or> instanceof_Set ?e")
      case False
      then have "processExtras ?e = Inl (InvalidArgumentType ''extras'')"
        by (simp add: processExtras_invalid)
      with True show ?thesis
        unfolding b by (simp add: build_extras_error)
    next
      case ok: True
      then obtain s where "processExtras ?e = Inr (JStr s)"
        using processExtras_total by blast
      with True key show ?thesis
        unfolding b a_def [symmetric]
        by (intro disjI2 exI [of _ "AList.update ''extras'' (JStr s) a"])
          (simp add: build_extras_value update_keys)
    qed
  qed
qed

lemma build_valid_returns:
  assumes "truthy (get_prop (case args of None \<Rightarrow> [] | Some a \<Rightarrow> a) ''extras'') \<longrightarrow>
           typeof (get_prop (case args of None \<Rightarrow> [] | Some a \<Rightarrow> a) ''extras'') = ''string''
           \<or> Array_isArray (get_prop (case args of None \<Rightarrow> [] | Some a \<Rightarrow> a) ''extras'')
           \<or> instanceof_Set (get_prop (case args of None \<Rightarrow> [] | Some a \<Rightarrow> a) ''extras'')"
  shows "\<exists>a2. build f hst verb m args =
         Inr (f \<lparr>req_verb = verb, req_url = ''https://'' @ hst @ ''/services/rest'',
                 req_query = (''method'', JStr m) # a2, req_headers = [], req_json = True\<rparr>)"
proof -
  define a where "a = (case args of None \<Rightarrow> [] | Some a \<Rightarrow> a)"
  have b: "build f hst verb m args = build f hst verb m (Some a)"
    by (cases args) (simp_all add: a_def build_omitted)
  let ?e = "get_prop a ''extras''"
  show ?thesis
  proof (cases "truthy ?e")
    case False
    then show ?thesis
      unfolding b by (intro exI [of _ a]) (simp add: build_extras_falsy)
  next
    case True
    with assms have "typeof ?e = ''string'' \<or> Array_isArray ?e \<or> instanceof_Set ?e"
      by (simp add: a_def)
    then obtain s where "processExtras ?e = Inr (JStr s)"
      using processExtras_total by blast
    with True show ?thesis
      unfolding b
      by (intro exI [of _ "AList.update ''extras'' (JStr s) a"]) (simp add: build_extras_value)
  qed
qed

lemma createClient_host:
  "\<exists>hst. createClient (JFunction f) opts = Inr (build f hst)
     \<and> (opts = None \<longrightarrow> hst = ''api.flickr.com'')"
proof (cases opts)
  case None
  then show ?thesis
    by (simp add: createClient_no_opts)
next
  case (Some given)
  then show ?thesis
    using createClient_JFunction [of f opts] by auto
qed

lemma keeps_request_url: "keeps_request p \<Longrightarrow> req_url (p q) = req_url q"
  by (simp add: keeps_request_def)

lemma keeps_request_query:
  "keeps_request p \<Longrightarrow> x \<in> set (req_query q) \<Longrightarrow> x \<in> set (req_query (p q))"
  by (auto simp: keeps_request_def)

lemma default_target:
  assumes "call (createClient auth None) verb m args = Inr r"
    and "auth = JStr key \<or> auth = JFunction f \<and> keeps_request f"
  shows "req_url r = ''https://api.flickr.com/services/rest''"
proof -
  define g where "g = (case auth of JStr k \<Rightarrow> createAPIKeyPlugin k | _ \<Rightarrow> f)"
  from assms(2) have "createClient auth None = createClient (JFunction g) None"
    and k: "keeps_request g"
    by (auto simp: g_def keeps_request_api_key createClient_JStr)
  with assms(1) have "build g ''api.flickr.com'' verb m args = Inr r"
    by (simp add: createClient_no_opts call_def)
  then have "req_url r = ''https://'' @ ''api.flickr.com'' @ ''/services/rest''"
    by (rule build_url) (simp add: keeps_request_url [OF k])
  then show ?thesis
    by simp
qed

lemma Flickr_not_new: "Flickr False auth opts = createClient auth None"
  by (subst Flickr.simps, simp, subst Flickr.simps, simp)

lemma Flickr_new: "Flickr True auth opts = createClient auth opts"
  by (subst Flickr.simps) simp

lemma number_range: "- (2 ^ 53) \<le> sint (n :: number) \<and> sint n < 2 ^ 53"
  using sint_ge [of n] sint_lt [of n] by simp

lemma build_valid_result:
  assumes "truthy (get_prop (case args of None \<Rightarrow> [] | Some a \<Rightarrow> a) ''extras'') \<longrightarrow>
           typeof (get_prop (case args of None \<Rightarrow> [] | Some a \<Rightarrow> a) ''extras'') = ''string''
           \<or> Array_isArray (get_prop (case args of None \<Rightarrow> [] | Some a \<Rightarrow> a) ''extras'')
           \<or> instanceof_Set (get_prop (case args of None \<Rightarrow> [] | Some a \<Rightarrow> a) ''extras'')"
  shows "\<exists>a2. build f hst verb m args =
         Inr (f \<lparr>req_verb = verb, req_url = ''https://'' @ hst @ ''/services/rest'',
                 req_query = (''method'', JStr m) # a2, req_headers = [], req_json = True\<rparr>)
       \<and> map fst a2 = map fst (case args of None \<Rightarrow> [] | Some a \<Rightarrow> a)"
  using build_valid_returns [OF assms, of f hst verb m] build_result [of f hst verb m args]
  by auto

lemma param_first:
  "name \<notin> fst ` set a2 \<Longrightarrow> map_of (rev ((name, v) # a2)) name = Some v"
  by (induction a2 rule: rev_induct) auto

lemma only_first:
  "name \<notin> fst ` set a2 \<Longrightarrow> filter (\<lambda>p. fst p = name) ((name, v) # a2) = [(name, v)]"
  by (induction a2) auto

lemma createClient_target:
  "createClient (JFunction f) opts =
     Inr (build f
       (case opts of
          None \<Rightarrow> ''api.flickr.com''
        | Some given \<Rightarrow>
            (case host given of None \<Rightarrow> ''api.flickr.com''
             | Some x \<Rightarrow> if x \<noteq> [] then x else ''api.flickr.com'') @
            (case port given of None \<Rightarrow> []
             | Some n \<Rightarrow> if n \<noteq> 0 then '':'' @ Number_toString n else [])))"
  by (simp add: createClient_def split: option.splits)

lemma operation_first_absent:
  "find (\<lambda>name. \<not> has_param args name) required = Some n \<Longrightarrow>
   operation verb method required this_client args = Inl (MissingRequiredArgument n)"
  by (induction required) (auto simp: validate_def split: if_splits)

lemma operation_all_present:
  "find (\<lambda>name. \<not> has_param args name) required = None \<Longrightarrow>
   operation verb method required this_client args = this_client verb method args"
  by (induction required) (auto simp: validate_def split: if_splits)

lemma find_only_absent:
  assumes "n \<in> set required" and "\<not> P n" and "\<forall>p\<in>set required. p \<noteq> n \<longrightarrow> P p"
  shows "find (\<lambda>name. \<not> P name) required = Some n"
  using assms by (induction required) auto

lemmas run_client =
  call_def createClient_def build_def use_def json_def query_def request_def
  createAPIKeyPlugin_def get_prop_def Let_def

lemmas run_extras =
  processExtras_def Array_from_new_Set add_once_def

lemmas run_number = Number_toString_def string_of_nat.simps digit_char_def

section \<open>The properties of the specification\<close>


text \<open>
  C3: an input that is neither a string, an array nor a Set makes the normalizer fail
  with the InvalidArgumentType error that names \<open>extras\<close>; it returns no value.
\<close>

theorem processExtras_rejects_other_shapes:
  \<open>typeof v \<noteq> ''string'' \<Longrightarrow> \<not> Array_isArray v \<Longrightarrow> \<not> instanceof_Set v \<Longrightarrow>
   processExtras v = Inl (InvalidArgumentType ''extras'')
   \<and> InvalidArgumentType ''extras'' = Error ''Invalid type for argument "extras"''\<close>
  by (simp add: processExtras_invalid) (simp add: InvalidArgumentType_def)

theorem processExtras_rejects_other_shapes_witness:
  "typeof (JNum 5 :: jsval) \<noteq> ''string'' \<and> \<not> Array_isArray (JNum 5 :: jsval)
   \<and> \<not> instanceof_Set (JNum 5 :: jsval)
   \<and> processExtras (JNum 5 :: jsval) = Inl (InvalidArgumentType ''extras'')"
  using processExtras_rejects_other_shapes [of "JNum 5 :: jsval"] by simp

text \<open>
  C7: an \<open>auth\<close> argument that is neither a string nor a function makes the
  construction fail with the MissingRequiredArgument error that names \<open>auth\<close>;
  there is no client to build a request with.
\<close>

theorem createClient_rejects_other_auth:
  \<open>typeof auth \<noteq> ''string'' \<Longrightarrow> typeof auth \<noteq> ''function'' \<Longrightarrow>
   createClient auth opts = Inl (MissingRequiredArgument ''auth'')
   \<and> call (createClient auth opts) verb m args = Inl (MissingRequiredArgument ''auth'')
   \<and> MissingRequiredArgument ''auth'' = Error ''Missing required argument "auth"''\<close>
  by (cases auth) (simp_all add: createClient_def call_def MissingRequiredArgument_def)

theorem createClient_rejects_other_auth_witness:
  "typeof (JNum 42 :: plugin js) \<noteq> ''string'' \<and> typeof (JNum 42 :: plugin js) \<noteq> ''function''
   \<and> createClient (JNum 42) None = Inl (MissingRequiredArgument ''auth'')
   \<and> createClient JUndefined (Some \<lparr>host = Some ''example.com'', port = Some 8080\<rparr>)
       = Inl (MissingRequiredArgument ''auth'')"
  using createClient_rejects_other_auth [of "JNum 42" None]
    createClient_rejects_other_auth
      [of JUndefined "Some \<lparr>host = Some ''example.com'', port = Some 8080\<rparr>"]
  by simp

text \<open>
  C5: a client constructed from an API-key string is constructed, its auth decorator
  adds the one query parameter \<open>api_key\<close> with that string and changes nothing else,
  and every request the client builds carries it, as its last query parameter.
\<close>

theorem api_key_client_adds_api_key:
  "(\<exists>this_client. createClient (JStr key) opts = Inr this_client)
   \<and> createAPIKeyPlugin key req = req\<lparr>req_query := req_query req @ [(''api_key'', JStr key)]\<rparr>
   \<and> (call (createClient (JStr key) opts) verb m args = Inr r \<longrightarrow>
        (\<exists>r0. r = createAPIKeyPlugin key r0 \<and> req_json r0 \<and> hd (req_query r0) = (''method'', JStr m))
        \<and> (''api_key'', JStr key) \<in> set (req_query r)
        \<and> last (req_query r) = (''api_key'', JStr key))"
proof -
  obtain hst where c: "createClient (JFunction (createAPIKeyPlugin key)) opts
      = Inr (build (createAPIKeyPlugin key) hst)"
    using createClient_JFunction by blast
  have p: "createAPIKeyPlugin key q = q\<lparr>req_query := req_query q @ [(''api_key'', JStr key)]\<rparr>" for q
    by (simp add: createAPIKeyPlugin_def query_def)
  have "(\<exists>r0. r = createAPIKeyPlugin key r0 \<and> req_json r0 \<and> hd (req_query r0) = (''method'', JStr m))
        \<and> (''api_key'', JStr key) \<in> set (req_query r)
        \<and> last (req_query r) = (''api_key'', JStr key)"
    if "call (createClient (JStr key) opts) verb m args = Inr r"
  proof -
    from that c have b: "build (createAPIKeyPlugin key) hst verb m args = Inr r"
      by (simp add: createClient_JStr call_def)
    from build_result [of "createAPIKeyPlugin key" hst verb m args] b
    obtain a2 where "r = createAPIKeyPlugin key
        \<lparr>req_verb = verb, req_url = ''https://'' @ hst @ ''/services/rest'',
         req_query = (''method'', JStr m) # a2, req_headers = [], req_json = True\<rparr>"
      by auto
    then show ?thesis
      by (auto simp: p intro!: exI [of _ "\<lparr>req_verb = verb, req_url = ''https://'' @ hst @ ''/services/rest'',
         req_query = (''method'', JStr m) # a2, req_headers = [], req_json = True\<rparr>"])
  qed
  with c p show ?thesis
    by (simp add: createClient_JStr)
qed

theorem api_key_client_adds_api_key_witness:
  "call (createClient (JStr ''KEY123'') None) ''GET'' ''flickr.test.echo'' None =
     Inr \<lparr>req_verb = ''GET'', req_url = ''https://api.flickr.com/services/rest'',
          req_query = [(''method'', JStr ''flickr.test.echo''), (''api_key'', JStr ''KEY123'')],
          req_headers = [], req_json = True\<rparr>
   \<and> (''api_key'', JStr ''KEY123'') \<in> set (req_query
         \<lparr>req_verb = ''GET'', req_url = ''https://api.flickr.com/services/rest'',
          req_query = [(''method'', JStr ''flickr.test.echo''), (''api_key'', JStr ''KEY123'')],
          req_headers = [], req_json = True\<rparr>)"
proof -
  have e: "call (createClient (JStr ''KEY123'') None) ''GET'' ''flickr.test.echo'' None =
     Inr \<lparr>req_verb = ''GET'', req_url = ''https://api.flickr.com/services/rest'',
          req_query = [(''method'', JStr ''flickr.test.echo''), (''api_key'', JStr ''KEY123'')],
          req_headers = [], req_json = True\<rparr>"
    by (simp add: run_client)
  with api_key_client_adds_api_key [of "''KEY123''" None _ "''GET''" "''flickr.test.echo''" None,
      THEN conjunct2, THEN conjunct2, THEN mp, OF e]
  show ?thesis
    by blast
qed

text \<open>
  C4, as amended: for every verb, every method name and every args mapping whose
  \<open>extras\<close> the normalizer accepts and which has no entry named \<open>method\<close>, the
  client builds a request. The request it assembles and hands to the auth decorator has
  exactly one \<open>method\<close> parameter, the method name passed in, and after it a
  parameter for each key of the args; with no options given its target is
  \<open>https://api.flickr.com/services/rest\<close>. The request of an API-key client keeps
  the parameter and the target.
\<close>

theorem built_request_has_method:
  assumes "createClient auth opts = Inr this_client"
    and "auth = JStr key \<and> f = createAPIKeyPlugin key \<or> auth = JFunction f"
    and "truthy (get_prop (case args of None \<Rightarrow> [] | Some a \<Rightarrow> a) ''extras'') \<longrightarrow>
           typeof (get_prop (case args of None \<Rightarrow> [] | Some a \<Rightarrow> a) ''extras'') = ''string''
           \<or> Array_isArray (get_prop (case args of None \<Rightarrow> [] | Some a \<Rightarrow> a) ''extras'')
           \<or> instanceof_Set (get_prop (case args of None \<Rightarrow> [] | Some a \<Rightarrow> a) ''extras'')"
    and "''method'' \<notin> fst ` set (case args of None \<Rightarrow> [] | Some a \<Rightarrow> a)"
  shows "\<exists>r0 r. this_client verb m args = Inr r \<and> r = f r0
           \<and> req_verb r0 = verb \<and> req_headers r0 = [] \<and> req_json r0
           \<and> map fst (req_query r0) = ''method'' # map fst (case args of None \<Rightarrow> [] | Some a \<Rightarrow> a)
           \<and> param r0 ''method'' = Some (JStr m)
           \<and> filter (\<lambda>p. fst p = ''method'') (req_query r0) = [(''method'', JStr m)]
           \<and> (opts = None \<longrightarrow> req_url r0 = ''https://api.flickr.com/services/rest'')
           \<and> (auth = JStr key \<longrightarrow>
                 param r ''method'' = Some (JStr m)
                 \<and> filter (\<lambda>p. fst p = ''method'') (req_query r) = [(''method'', JStr m)]
                 \<and> req_url r = req_url r0)"
proof -
  from assms(2) have same: "createClient auth opts = createClient (JFunction f) opts"
    by (auto simp: createClient_JStr)
  obtain hst where h: "createClient (JFunction f) opts = Inr (build f hst)"
    and d: "opts = None \<longrightarrow> hst = ''api.flickr.com''"
    using createClient_host by blast
  with same assms(1) have c: "this_client = build f hst"
    by simp
  obtain a2 where b: "build f hst verb m args =
      Inr (f \<lparr>req_verb = verb, req_url = ''https://'' @ hst @ ''/services/rest'',
              req_query = (''method'', JStr m) # a2, req_headers = [], req_json = True\<rparr>)"
    and keys: "map fst a2 = map fst (case args of None \<Rightarrow> [] | Some a \<Rightarrow> a)"
    using build_valid_result [OF assms(3)] by blast
  let ?r0 = "\<lparr>req_verb = verb, req_url = ''https://'' @ hst @ ''/services/rest'',
              req_query = (''method'', JStr m) # a2, req_headers = [], req_json = True\<rparr>"
  have "set (map fst a2) = set (map fst (case args of None \<Rightarrow> [] | Some a \<Rightarrow> a))"
    by (simp only: keys)
  with assms(4) have no: "''method'' \<notin> fst ` set a2"
    by simp
  have p0: "param ?r0 ''method'' = Some (JStr m)"
    unfolding param_def using param_first [OF no] by simp
  have o0: "filter (\<lambda>p. fst p = ''method'') (req_query ?r0) = [(''method'', JStr m)]"
    using only_first [OF no] by simp
  have k: "param (f ?r0) ''method'' = Some (JStr m)
      \<and> filter (\<lambda>p. fst p = ''method'') (req_query (f ?r0)) = [(''method'', JStr m)]
      \<and> req_url (f ?r0) = req_url ?r0" if "auth = JStr key"
  proof -
    from that assms(2) have "f = createAPIKeyPlugin key"
      by simp
    then have "f ?r0 = ?r0\<lparr>req_query := req_query ?r0 @ [(''api_key'', JStr key)]\<rparr>"
      by (simp add: createAPIKeyPlugin_def query_def)
    with p0 o0 show ?thesis
      by (simp add: param_def)
  qed
  show ?thesis
    unfolding c
    by (intro exI [of _ ?r0] exI [of _ "f ?r0"]) (use b keys p0 o0 d k in simp)
qed

theorem built_request_has_method_witness:
  "createClient (JStr ''KEY123'') None = Inr (build (createAPIKeyPlugin ''KEY123'') ''api.flickr.com'')
   \<and> ''method'' \<notin> fst ` set [(''photo_id'', JNum 7), (''extras'', JStr ''a,b,a'')]
   \<and> build (createAPIKeyPlugin ''KEY123'') ''api.flickr.com'' ''GET'' ''flickr.photos.getInfo''
        (Some [(''photo_id'', JNum 7), (''extras'', JStr ''a,b,a'')]) =
       Inr \<lparr>req_verb = ''GET'', req_url = ''https://api.flickr.com/services/rest'',
            req_query = [(''method'', JStr ''flickr.photos.getInfo''), (''photo_id'', JNum 7),
                         (''extras'', JStr ''a,b''), (''api_key'', JStr ''KEY123'')],
            req_headers = [], req_json = True\<rparr>
   \<and> param \<lparr>req_verb = ''GET'', req_url = ''https://api.flickr.com/services/rest'',
            req_query = [(''method'', JStr ''flickr.photos.getInfo''), (''photo_id'', JNum 7),
                         (''extras'', JStr ''a,b''), (''api_key'', JStr ''KEY123'')],
            req_headers = [], req_json = True\<rparr> ''method'' = Some (JStr ''flickr.photos.getInfo'')
   \<and> (\<exists>r. build (createAPIKeyPlugin ''KEY123'') ''api.flickr.com'' ''GET'' ''flickr.test.echo''
              (Some []) = Inr r
         \<and> param r ''method'' = Some (JStr ''flickr.test.echo'')
         \<and> req_url r = ''https://api.flickr.com/services/rest'')"
proof -
  let ?a = "[(''photo_id'', JNum 7), (''extras'', JStr ''a,b,a'')] :: args"
  let ?r = "\<lparr>req_verb = ''GET'', req_url = ''https://api.flickr.com/services/rest'',
            req_query = [(''method'', JStr ''flickr.photos.getInfo''), (''photo_id'', JNum 7),
                         (''extras'', JStr ''a,b''), (''api_key'', JStr ''KEY123'')],
            req_headers = [], req_json = True\<rparr>"
  have c: "createClient (JStr ''KEY123'') None = Inr (build (createAPIKeyPlugin ''KEY123'') ''api.flickr.com'')"
    by (simp add: createClient_def)
  have a: "JStr ''KEY123'' = JStr ''KEY123'' \<and> createAPIKeyPlugin ''KEY123'' = createAPIKeyPlugin ''KEY123''
           \<or> JStr ''KEY123'' = JFunction (createAPIKeyPlugin ''KEY123'')"
    by simp
  have v: "truthy (get_prop (case Some ?a of None \<Rightarrow> [] | Some a \<Rightarrow> a) ''extras'') \<longrightarrow>
           typeof (get_prop (case Some ?a of None \<Rightarrow> [] | Some a \<Rightarrow> a) ''extras'') = ''string''
           \<or> Array_isArray (get_prop (case Some ?a of None \<Rightarrow> [] | Some a \<Rightarrow> a) ''extras'')
           \<or> instanceof_Set (get_prop (case Some ?a of None \<Rightarrow> [] | Some a \<Rightarrow> a) ''extras'')"
    by (simp add: get_prop_def)
  have n: "''method'' \<notin> fst ` set (case Some ?a of None \<Rightarrow> [] | Some a \<Rightarrow> a)"
    by simp
  have e: "build (createAPIKeyPlugin ''KEY123'') ''api.flickr.com'' ''GET'' ''flickr.photos.getInfo''
        (Some ?a) = Inr ?r"
    by (simp add: run_client run_extras)
  from built_request_has_method [OF c a v n, of "''GET''" "''flickr.photos.getInfo''"] e
  have 1: "param ?r ''method'' = Some (JStr ''flickr.photos.getInfo'')"
    by auto
  have v0: "truthy (get_prop (case Some [] of None \<Rightarrow> [] | Some a \<Rightarrow> a) ''extras'') \<longrightarrow>
           typeof (get_prop (case Some [] of None \<Rightarrow> [] | Some a \<Rightarrow> a) ''extras'') = ''string''
           \<or> Array_isArray (get_prop (case Some [] of None \<Rightarrow> [] | Some a \<Rightarrow> a) ''extras'')
           \<or> instanceof_Set (get_prop (case Some [] of None \<Rightarrow> [] | Some a \<Rightarrow> a) ''extras'')"
    by (simp add: get_prop_def)
  have n0: "''method'' \<notin> fst ` set (case Some [] of None \<Rightarrow> [] | Some a \<Rightarrow> (a :: args))"
    by simp
  from built_request_has_method [OF c a v0 n0, of "''GET''" "''flickr.test.echo''"]
  have 2: "\<exists>r. build (createAPIKeyPlugin ''KEY123'') ''api.flickr.com'' ''GET'' ''flickr.test.echo''
              (Some []) = Inr r
         \<and> param r ''method'' = Some (JStr ''flickr.test.echo'')
         \<and> req_url r = ''https://api.flickr.com/services/rest''"
    by auto
  from c e 1 2 show ?thesis
    by simp
qed

text \<open>
  C4 as stated fails for args that have an entry named \<open>method\<close>: the args are
  attached after the builder's own \<open>method\<close>, and the request's \<open>method\<close>
  parameter is the value the args gave, not the method name passed in.
\<close>

theorem method_in_args_counterexample:
  "call (createClient (JStr ''KEY123'') None) ''GET'' ''flickr.test.echo''
        (Some [(''method'', JStr ''flickr.photos.delete'')]) =
       Inr \<lparr>req_verb = ''GET'', req_url = ''https://api.flickr.com/services/rest'',
            req_query = [(''method'', JStr ''flickr.test.echo''),
                         (''method'', JStr ''flickr.photos.delete''),
                         (''api_key'', JStr ''KEY123'')],
            req_headers = [], req_json = True\<rparr>
   \<and> param \<lparr>req_verb = ''GET'', req_url = ''https://api.flickr.com/services/rest'',
            req_query = [(''method'', JStr ''flickr.test.echo''),
                         (''method'', JStr ''flickr.photos.delete''),
                         (''api_key'', JStr ''KEY123'')],
            req_headers = [], req_json = True\<rparr> ''method'' = Some (JStr ''flickr.photos.delete'')
   \<and> Some (JStr ''flickr.photos.delete'' :: jsval) \<noteq> Some (JStr ''flickr.test.echo'')"
  by (simp add: run_client param_def)

text \<open>
  C6, as amended: a client has one target, and every request it builds is created with
  it and handed to the auth decorator; the built request has it when the auth is an API
  key or a plugin that leaves the target as it is. With a non-empty host and a non-zero
  port in the options, the port an integer that is printed as its decimal digits, the
  target is \<open>https://{host}:{port}/services/rest\<close>; a port that is absent or 0
  leaves \<open>https://{host}/services/rest\<close>; a host that is absent or empty is
  \<open>api.flickr.com\<close>.
\<close>

theorem target_url_from_opts:
  assumes "createClient auth opts = Inr this_client"
    and "auth = JStr key \<and> f = createAPIKeyPlugin key \<or> auth = JFunction f"
  shows "\<exists>u.
      (\<forall>verb m args.
          this_client verb m args = Inl (InvalidArgumentType ''extras'')
          \<or> (\<exists>a2. this_client verb m args =
                Inr (f \<lparr>req_verb = verb, req_url = u, req_query = (''method'', JStr m) # a2,
                        req_headers = [], req_json = True\<rparr>)))
    \<and> ((auth = JStr key \<or> (\<forall>q. req_url (f q) = req_url q)) \<longrightarrow>
          (\<forall>verb m args r. this_client verb m args = Inr r \<longrightarrow> req_url r = u))
    \<and> (opts = None \<longrightarrow> u = ''https://api.flickr.com/services/rest'')
    \<and> (\<forall>h n. opts = Some \<lparr>host = Some h, port = Some n\<rparr> \<and> h \<noteq> [] \<and> n \<noteq> 0 \<longrightarrow>
          u = ''https://'' @ h @ '':'' @ Number_toString n @ ''/services/rest'')
    \<and> (\<forall>h p. opts = Some \<lparr>host = Some h, port = p\<rparr> \<and> h \<noteq> [] \<and> (p = None \<or> p = Some 0) \<longrightarrow>
          u = ''https://'' @ h @ ''/services/rest'')
    \<and> (\<forall>h p. opts = Some \<lparr>host = h, port = p\<rparr> \<and> (h = None \<or> h = Some [])
               \<and> (p = None \<or> p = Some 0) \<longrightarrow>
          u = ''https://api.flickr.com/services/rest'')
    \<and> (\<forall>h n. opts = Some \<lparr>host = h, port = Some n\<rparr> \<and> (h = None \<or> h = Some []) \<and> n \<noteq> 0 \<longrightarrow>
          u = ''https://api.flickr.com:'' @ Number_toString n @ ''/services/rest'')"
proof -
  define hst where "hst =
       (case opts of
          None \<Rightarrow> ''api.flickr.com''
        | Some given \<Rightarrow>
            (case host given of None \<Rightarrow> ''api.flickr.com''
             | Some x \<Rightarrow> if x \<noteq> [] then x else ''api.flickr.com'') @
            (case port given of None \<Rightarrow> []
             | Some n \<Rightarrow> if n \<noteq> 0 then '':'' @ Number_toString n else []))"
  let ?u = "''https://'' @ hst @ ''/services/rest''"
  from assms(2) have same: "createClient auth opts = createClient (JFunction f) opts"
    by (auto simp: createClient_JStr)
  with assms(1) have c: "this_client = build f hst"
    by (simp add: createClient_target hst_def)
  have 1: "\<forall>verb m args.
          this_client verb m args = Inl (InvalidArgumentType ''extras'')
          \<or> (\<exists>a2. this_client verb m args =
                Inr (f \<lparr>req_verb = verb, req_url = ?u, req_query = (''method'', JStr m) # a2,
                        req_headers = [], req_json = True\<rparr>))"
    unfolding c using build_result [of f hst] by blast
  have 2: "(auth = JStr key \<or> (\<forall>q. req_url (f q) = req_url q)) \<longrightarrow>
          (\<forall>verb m args r. this_client verb m args = Inr r \<longrightarrow> req_url r = ?u)"
  proof (intro impI allI)
    fix verb m args r
    assume a: "auth = JStr key \<or> (\<forall>q. req_url (f q) = req_url q)"
      and b: "this_client verb m args = Inr r"
    from a assms(2) have "\<forall>q. req_url (f q) = req_url q"
      by (auto simp: createAPIKeyPlugin_url)
    with b show "req_url r = ?u"
      unfolding c by (rule build_url)
  qed
  have 3: "opts = None \<longrightarrow> ?u = ''https://api.flickr.com/services/rest''"
    by (simp add: hst_def)
  have 4: "\<forall>h n. opts = Some \<lparr>host = Some h, port = Some n\<rparr> \<and> h \<noteq> [] \<and> n \<noteq> 0 \<longrightarrow>
          ?u = ''https://'' @ h @ '':'' @ Number_toString n @ ''/services/rest''"
    by (simp add: hst_def)
  have 5: "\<forall>h p. opts = Some \<lparr>host = Some h, port = p\<rparr> \<and> h \<noteq> [] \<and> (p = None \<or> p = Some 0) \<longrightarrow>
          ?u = ''https://'' @ h @ ''/services/rest''"
    by (auto simp: hst_def)
  have 6: "\<forall>h p. opts = Some \<lparr>host = h, port = p\<rparr> \<and> (h = None \<or> h = Some [])
               \<and> (p = None \<or> p = Some 0) \<longrightarrow>
          ?u = ''https://api.flickr.com/services/rest''"
    by (auto simp: hst_def)
  have 7: "\<forall>h n. opts = Some \<lparr>host = h, port = Some n\<rparr> \<and> (h = None \<or> h = Some []) \<and> n \<noteq> 0 \<longrightarrow>
          ?u = ''https://api.flickr.com:'' @ Number_toString n @ ''/services/rest''"
    by (auto simp: hst_def)
  show ?thesis
    by (rule exI [of _ ?u]) (intro conjI 1 2 3 4 5 6 7)
qed

theorem target_url_from_opts_witness:
  "createClient (JStr ''KEY123'') (Some \<lparr>host = Some ''example.com'', port = Some 8080\<rparr>) =
     Inr (build (createAPIKeyPlugin ''KEY123'') ''example.com:8080'')
   \<and> build (createAPIKeyPlugin ''KEY123'') ''example.com:8080'' ''GET'' ''flickr.test.echo'' None =
     Inr \<lparr>req_verb = ''GET'', req_url = ''https://example.com:8080/services/rest'',
          req_query = [(''method'', JStr ''flickr.test.echo''), (''api_key'', JStr ''KEY123'')],
          req_headers = [], req_json = True\<rparr>
   \<and> ''https://'' @ ''example.com'' @ '':'' @ Number_toString 8080 @ ''/services/rest''
       = ''https://example.com:8080/services/rest''"
proof -
  let ?r = "\<lparr>req_verb = ''GET'', req_url = ''https://example.com:8080/services/rest'',
          req_query = [(''method'', JStr ''flickr.test.echo''), (''api_key'', JStr ''KEY123'')],
          req_headers = [], req_json = True\<rparr>"
  let ?c = "build (createAPIKeyPlugin ''KEY123'') ''example.com:8080''"
  have c: "createClient (JStr ''KEY123'') (Some \<lparr>host = Some ''example.com'', port = Some 8080\<rparr>)
      = Inr ?c"
    by (simp add: createClient_def run_number)
  have a: "JStr ''KEY123'' = JStr ''KEY123'' \<and> createAPIKeyPlugin ''KEY123'' = createAPIKeyPlugin ''KEY123''
           \<or> JStr ''KEY123'' = JFunction (createAPIKeyPlugin ''KEY123'')"
    by simp
  have e: "?c ''GET'' ''flickr.test.echo'' None = Inr ?r"
    by (simp add: run_client)
  from target_url_from_opts [OF c a] obtain u
    where 2: "\<forall>verb m args r. ?c verb m args = Inr r \<longrightarrow> req_url r = u"
      and 4: "u = ''https://'' @ ''example.com'' @ '':'' @ Number_toString 8080 @ ''/services/rest''"
    by auto
  from 2 e have "req_url ?r = u"
    by blast
  with 4 have "''https://'' @ ''example.com'' @ '':'' @ Number_toString 8080 @ ''/services/rest''
       = ''https://example.com:8080/services/rest''"
    by simp
  with c e show ?thesis
    by simp
qed

text \<open>
  C6 as stated fails for the port 0: the condition \<open>if (opts.port)\<close> is false for
  it, and the target has no port.
\<close>

theorem port_zero_counterexample:
  "map_sum id req_url
     (call (createClient (JStr ''KEY123'') (Some \<lparr>host = Some ''example.com'', port = Some 0\<rparr>))
        ''GET'' ''flickr.test.echo'' None) = Inr ''https://example.com/services/rest''
   \<and> map_sum id req_url
     (call (createClient (JStr ''KEY123'') (Some \<lparr>host = Some ''example.com'', port = Some 0\<rparr>))
        ''GET'' ''flickr.test.echo'' None)
       \<noteq> Inr (''https://'' @ ''example.com'' @ '':'' @ Number_toString 0 @ ''/services/rest'')"
  by (simp add: run_client run_number)

text \<open>
  C2, as amended: when the \<open>extras\<close> of the args is truthy, the builder replaces it
  with the normalizer's output before it assembles the request, and fails with the
  normalizer's InvalidArgumentType error when the value is not a string, an array or a
  Set; a falsy \<open>extras\<close> is left as it is and the request is built.
\<close>

theorem builder_normalizes_truthy_extras:
  assumes "createClient auth opts = Inr this_client"
    and "auth = JStr key \<and> f = createAPIKeyPlugin key \<or> auth = JFunction f"
  shows "(truthy (get_prop a ''extras'')
          \<and> (typeof (get_prop a ''extras'') = ''string'' \<or> Array_isArray (get_prop a ''extras'')
               \<or> instanceof_Set (get_prop a ''extras'')) \<longrightarrow>
          (\<exists>u s. processExtras (get_prop a ''extras'') = Inr (JStr s)
             \<and> this_client verb m (Some a) =
                 Inr (f \<lparr>req_verb = verb, req_url = u,
                         req_query = (''method'', JStr m) # AList.update ''extras'' (JStr s) a,
                         req_headers = [], req_json = True\<rparr>)))
    \<and> (truthy (get_prop a ''extras'')
          \<and> \<not> (typeof (get_prop a ''extras'') = ''string'' \<or> Array_isArray (get_prop a ''extras'')
               \<or> instanceof_Set (get_prop a ''extras'')) \<longrightarrow>
          processExtras (get_prop a ''extras'') = Inl (InvalidArgumentType ''extras'')
          \<and> this_client verb m (Some a) = Inl (InvalidArgumentType ''extras''))
    \<and> (\<not> truthy (get_prop a ''extras'') \<longrightarrow>
          (\<exists>u. this_client verb m (Some a) =
                 Inr (f \<lparr>req_verb = verb, req_url = u, req_query = (''method'', JStr m) # a,
                         req_headers = [], req_json = True\<rparr>)))"
proof -
  from assms obtain hst where c: "this_client = build f hst"
    using createClient_plugin [of auth opts this_client f key] by blast
  let ?e = "get_prop a ''extras''"
  have 1: "\<exists>u s. processExtras ?e = Inr (JStr s)
             \<and> this_client verb m (Some a) =
                 Inr (f \<lparr>req_verb = verb, req_url = u,
                         req_query = (''method'', JStr m) # AList.update ''extras'' (JStr s) a,
                         req_headers = [], req_json = True\<rparr>)"
    if t: "truthy ?e" and ok: "typeof ?e = ''string'' \<or> Array_isArray ?e \<or> instanceof_Set ?e"
  proof -
    from ok obtain s where s: "processExtras ?e = Inr (JStr s)"
      using processExtras_total by blast
    show ?thesis
      unfolding c
      by (intro exI [of _ "''https://'' @ hst @ ''/services/rest''"] exI [of _ s])
        (simp add: s build_extras_value [OF t s])
  qed
  have 2: "processExtras ?e = Inl (InvalidArgumentType ''extras'')
          \<and> this_client verb m (Some a) = Inl (InvalidArgumentType ''extras'')"
    if t: "truthy ?e" and no: "\<not> (typeof ?e = ''string'' \<or> Array_isArray ?e \<or> instanceof_Set ?e)"
  proof -
    from no have "processExtras ?e = Inl (InvalidArgumentType ''extras'')"
      by (simp add: processExtras_invalid)
    then show ?thesis
      unfolding c by (simp add: build_extras_error [OF t])
  qed
  have 3: "\<exists>u. this_client verb m (Some a) =
                 Inr (f \<lparr>req_verb = verb, req_url = u, req_query = (''method'', JStr m) # a,
                         req_headers = [], req_json = True\<rparr>)"
    if "\<not> truthy ?e"
    unfolding c
    by (intro exI [of _ "''https://'' @ hst @ ''/services/rest''"]) (simp add: build_extras_falsy [OF that])
  from 1 2 3 show ?thesis
    by blast
qed

theorem builder_normalizes_truthy_extras_witness:
  "createClient (JStr ''KEY123'') None = Inr (build (createAPIKeyPlugin ''KEY123'') ''api.flickr.com'')
   \<and> truthy (get_prop [(''extras'', JStr ''a,b,a'')] ''extras'')
   \<and> build (createAPIKeyPlugin ''KEY123'') ''api.flickr.com'' ''GET'' ''x.y''
         (Some [(''extras'', JStr ''a,b,a'')]) =
       Inr \<lparr>req_verb = ''GET'', req_url = ''https://api.flickr.com/services/rest'',
            req_query = [(''method'', JStr ''x.y''), (''extras'', JStr ''a,b''),
                         (''api_key'', JStr ''KEY123'')],
            req_headers = [], req_json = True\<rparr>
   \<and> truthy (get_prop [(''extras'', JNum 5)] ''extras'')
   \<and> build (createAPIKeyPlugin ''KEY123'') ''api.flickr.com'' ''GET'' ''x.y''
         (Some [(''extras'', JNum 5)]) = Inl (InvalidArgumentType ''extras'')"
proof -
  have c: "createClient (JStr ''KEY123'') None = Inr (build (createAPIKeyPlugin ''KEY123'') ''api.flickr.com'')"
    by (simp add: createClient_def)
  have a: "JStr ''KEY123'' = JStr ''KEY123'' \<and> createAPIKeyPlugin ''KEY123'' = createAPIKeyPlugin ''KEY123''
           \<or> JStr ''KEY123'' = JFunction (createAPIKeyPlugin ''KEY123'')"
    by simp
  have p: "processExtras (JStr ''a,b,a'' :: jsval) = Inr (JStr ''a,b'')"
    by (simp add: run_extras)
  from builder_normalizes_truthy_extras [OF c a, of "[(''extras'', JStr ''a,b,a'')]" "''GET''" "''x.y''"] p
  have "build (createAPIKeyPlugin ''KEY123'') ''api.flickr.com'' ''GET'' ''x.y''
         (Some [(''extras'', JStr ''a,b,a'')]) =
       Inr \<lparr>req_verb = ''GET'', req_url = ''https://api.flickr.com/services/rest'',
            req_query = [(''method'', JStr ''x.y''), (''extras'', JStr ''a,b''),
                         (''api_key'', JStr ''KEY123'')],
            req_headers = [], req_json = True\<rparr>"
    by (simp add: run_client run_extras)
  moreover from builder_normalizes_truthy_extras [OF c a, of "[(''extras'', JNum 5)]" "''GET''" "''x.y''"]
  have "build (createAPIKeyPlugin ''KEY123'') ''api.flickr.com'' ''GET'' ''x.y''
         (Some [(''extras'', JNum 5)]) = Inl (InvalidArgumentType ''extras'')"
    by (simp add: get_prop_def)
  ultimately show ?thesis
    using c by (simp add: get_prop_def)
qed

text \<open>
  C2 as stated fails for the number 0: the normalizer rejects it, but the condition
  \<open>if (args.extras)\<close> is false for it, so the builder does not call the normalizer and
  builds the request with \<open>extras\<close> as it was.
\<close>

theorem extras_zero_counterexample:
  "processExtras (JNum 0 :: jsval) = Inl (InvalidArgumentType ''extras'')
   \<and> call (createClient (JStr ''KEY123'') None) ''GET'' ''x.y'' (Some [(''extras'', JNum 0)]) =
       Inr \<lparr>req_verb = ''GET'', req_url = ''https://api.flickr.com/services/rest'',
            req_query = [(''method'', JStr ''x.y''), (''extras'', JNum 0),
                         (''api_key'', JStr ''KEY123'')],
            req_headers = [], req_json = True\<rparr>"
  by (simp add: run_client processExtras_def InvalidArgumentType_def)

text \<open>
  C8: a call of an operation with a required parameter absent from the args fails with
  the MissingRequiredArgument error that names the first of the declared names that is
  absent, which is that parameter when it is the only one absent; whatever the client
  is, it is not called and no request is made. With every declared name present the
  call is the client's. \<open>photos.getInfo\<close> declares \<open>photo_id\<close>;
  \<open>blogs.postPhoto\<close> declares \<open>photo_id\<close>, \<open>title\<close> and \<open>description\<close>.
\<close>

theorem operation_requires_parameters:
  \<open>(find (\<lambda>name. \<not> has_param args name) required = Some n \<longrightarrow>
      n \<in> set required \<and> \<not> has_param args n
      \<and> operation verb method required this_client args = Inl (MissingRequiredArgument n))
   \<and> (n \<in> set required \<and> \<not> has_param args n
        \<and> (\<forall>p\<in>set required. p \<noteq> n \<longrightarrow> has_param args p) \<longrightarrow>
      operation verb method required this_client args = Inl (MissingRequiredArgument n))
   \<and> ((\<exists>p\<in>set required. \<not> has_param args p) \<longrightarrow>
      (\<exists>p\<in>set required. \<not> has_param args p
         \<and> operation verb method required this_client args = Inl (MissingRequiredArgument p)))
   \<and> ((\<forall>p\<in>set required. has_param args p) \<longrightarrow>
      operation verb method required this_client args = this_client verb method args)
   \<and> photos_getInfo this_client args =
       operation ''GET'' ''flickr.photos.getInfo'' [''photo_id''] this_client args
   \<and> blogs_postPhoto this_client args =
       operation ''POST'' ''flickr.blogs.postPhoto'' [''photo_id'', ''title'', ''description'']
         this_client args
   \<and> MissingRequiredArgument ''photo_id'' = Error ''Missing required argument "photo_id"''\<close>
proof -
  let ?absent = "\<lambda>name. \<not> has_param args name"
  have 1: "n \<in> set required \<and> \<not> has_param args n
      \<and> operation verb method required this_client args = Inl (MissingRequiredArgument n)"
    if "find ?absent required = Some n"
    using that operation_first_absent [OF that] by (auto simp: find_Some_iff)
  have 2: "operation verb method required this_client args = Inl (MissingRequiredArgument n)"
    if "n \<in> set required \<and> \<not> has_param args n
        \<and> (\<forall>p\<in>set required. p \<noteq> n \<longrightarrow> has_param args p)"
    using that by (intro operation_first_absent find_only_absent) auto
  have 3: "\<exists>p\<in>set required. \<not> has_param args p
         \<and> operation verb method required this_client args = Inl (MissingRequiredArgument p)"
    if "\<exists>p\<in>set required. \<not> has_param args p"
  proof -
    from that obtain q where "find ?absent required = Some q"
      by (cases "find ?absent required") (auto simp: find_None_iff)
    then show ?thesis
      using operation_first_absent [of args required q] by (auto simp: find_Some_iff)
  qed
  have 4: "operation verb method required this_client args = this_client verb method args"
    if "\<forall>p\<in>set required. has_param args p"
    using that by (intro operation_all_present) (simp add: find_None_iff)
  have 5: "photos_getInfo this_client args =
       operation ''GET'' ''flickr.photos.getInfo'' [''photo_id''] this_client args"
    by (simp add: photos_getInfo_def split: sum.splits)
  have 6: "blogs_postPhoto this_client args =
       operation ''POST'' ''flickr.blogs.postPhoto'' [''photo_id'', ''title'', ''description'']
         this_client args"
    by (simp add: blogs_postPhoto_def split: sum.splits)
  have 7: \<open>MissingRequiredArgument ''photo_id'' = Error ''Missing required argument "photo_id"''\<close>
    by (simp add: MissingRequiredArgument_def)
  from 1 2 3 4 5 6 7 show ?thesis
    by blast
qed

theorem operation_requires_parameters_witness:
  "\<not> has_param (Some [(''secret'', JStr ''abc'')]) ''photo_id''
   \<and> photos_getInfo (build (createAPIKeyPlugin ''KEY123'') ''api.flickr.com'')
        (Some [(''secret'', JStr ''abc'')]) = Inl (MissingRequiredArgument ''photo_id'')
   \<and> find (\<lambda>name. \<not> has_param (Some [(''photo_id'', JNum 7), (''description'', JStr ''d'')]) name)
        [''photo_id'', ''title'', ''description''] = Some ''title''
   \<and> blogs_postPhoto (build (createAPIKeyPlugin ''KEY123'') ''api.flickr.com'')
        (Some [(''photo_id'', JNum 7), (''description'', JStr ''d'')]) =
       Inl (MissingRequiredArgument ''title'')
   \<and> blogs_postPhoto (build (createAPIKeyPlugin ''KEY123'') ''api.flickr.com'') None =
       Inl (MissingRequiredArgument ''photo_id'')
   \<and> has_param (Some [(''photo_id'', JNum 25825763)]) ''photo_id''
   \<and> photos_getInfo (build (createAPIKeyPlugin ''KEY123'') ''api.flickr.com'')
        (Some [(''photo_id'', JNum 25825763)]) =
       Inr \<lparr>req_verb = ''GET'', req_url = ''https://api.flickr.com/services/rest'',
            req_query = [(''method'', JStr ''flickr.photos.getInfo''), (''photo_id'', JNum 25825763),
                         (''api_key'', JStr ''KEY123'')],
            req_headers = [], req_json = True\<rparr>"
proof -
  let ?c = "build (createAPIKeyPlugin ''KEY123'') ''api.flickr.com''"
  have f1: "find (\<lambda>name. \<not> has_param (Some [(''secret'', JStr ''abc'')]) name) [''photo_id'']
      = Some ''photo_id''"
    by (simp add: has_param_def)
  have f2: "find (\<lambda>name. \<not> has_param (Some [(''photo_id'', JNum 7), (''description'', JStr ''d'')]) name)
        [''photo_id'', ''title'', ''description''] = Some ''title''"
    by (simp add: has_param_def)
  have f3: "find (\<lambda>name. \<not> has_param None name) [''photo_id'', ''title'', ''description'']
      = Some ''photo_id''"
    by (simp add: has_param_def)
  have p4: "\<forall>p\<in>set [''photo_id'']. has_param (Some [(''photo_id'', JNum 25825763)]) p"
    by (simp add: has_param_def)
  note t1 = operation_requires_parameters
      [of "Some [(''secret'', JStr ''abc'')]" "[''photo_id'']" "''photo_id''"
        "''GET''" "''flickr.photos.getInfo''" ?c]
  note t2 = operation_requires_parameters
      [of "Some [(''photo_id'', JNum 7), (''description'', JStr ''d'')]"
        "[''photo_id'', ''title'', ''description'']" "''title''"
        "''POST''" "''flickr.blogs.postPhoto''" ?c]
  note t3 = operation_requires_parameters
      [of None "[''photo_id'', ''title'', ''description'']" "''photo_id''"
        "''POST''" "''flickr.blogs.postPhoto''" ?c]
  note t4 = operation_requires_parameters
      [of "Some [(''photo_id'', JNum 25825763)]" "[''photo_id'']" "''photo_id''"
        "''GET''" "''flickr.photos.getInfo''" ?c]
  from t1 f1 have 1: "\<not> has_param (Some [(''secret'', JStr ''abc'')]) ''photo_id''
      \<and> photos_getInfo ?c (Some [(''secret'', JStr ''abc'')]) = Inl (MissingRequiredArgument ''photo_id'')"
    by simp
  from t2 f2 have 2: "blogs_postPhoto ?c (Some [(''photo_id'', JNum 7), (''description'', JStr ''d'')])
      = Inl (MissingRequiredArgument ''title'')"
    by simp
  from t3 f3 have 3: "blogs_postPhoto ?c None = Inl (MissingRequiredArgument ''photo_id'')"
    by simp
  from t4 p4 have "photos_getInfo ?c (Some [(''photo_id'', JNum 25825763)])
      = ?c ''GET'' ''flickr.photos.getInfo'' (Some [(''photo_id'', JNum 25825763)])"
    by simp
  then have 4: "photos_getInfo ?c (Some [(''photo_id'', JNum 25825763)]) =
       Inr \<lparr>req_verb = ''GET'', req_url = ''https://api.flickr.com/services/rest'',
            req_query = [(''method'', JStr ''flickr.photos.getInfo''), (''photo_id'', JNum 25825763),
                         (''api_key'', JStr ''KEY123'')],
            req_headers = [], req_json = True\<rparr>"
    by (simp add: run_client)
  from 1 2 3 4 f2 p4 show ?thesis
    by simp
qed

text \<open>
  C9: unless the normalizer rejects the \<open>extras\<close>, the built request is the auth
  decorator applied to the request that already has its target, the \<open>method\<close>
  parameter, a parameter for every key of the args, and the JSON decorator's mark: the
  auth decorator runs last and sees all of them.
\<close>

theorem auth_decorator_applied_last:
  assumes "createClient auth opts = Inr this_client"
    and "auth = JStr key \<and> f = createAPIKeyPlugin key \<or> auth = JFunction f"
  shows "this_client verb m args = Inl (InvalidArgumentType ''extras'')
    \<or> (\<exists>u a2. this_client verb m args =
           Inr (f \<lparr>req_verb = verb, req_url = u, req_query = (''method'', JStr m) # a2,
                   req_headers = [], req_json = True\<rparr>)
         \<and> map fst a2 = map fst (case args of None \<Rightarrow> [] | Some a \<Rightarrow> a))"
proof -
  from assms obtain hst where c: "this_client = build f hst"
    using createClient_plugin [of auth opts this_client f key] by blast
  from build_result [of f hst verb m args] show ?thesis
    unfolding c by blast
qed

theorem auth_decorator_applied_last_witness:
  "createClient
     (JFunction (\<lambda>q. q\<lparr>req_headers := [(''X-Signed'', join ''&'' (map fst (req_query q)))]\<rparr>))
     None =
     Inr (build (\<lambda>q. q\<lparr>req_headers := [(''X-Signed'', join ''&'' (map fst (req_query q)))]\<rparr>)
            ''api.flickr.com'')
   \<and> build (\<lambda>q. q\<lparr>req_headers := [(''X-Signed'', join ''&'' (map fst (req_query q)))]\<rparr>)
        ''api.flickr.com'' ''GET'' ''flickr.photos.getInfo''
        (Some [(''photo_id'', JNum 7), (''extras'', JArray [''tags'', ''tags'', ''views''])]) =
       Inr \<lparr>req_verb = ''GET'', req_url = ''https://api.flickr.com/services/rest'',
            req_query = [(''method'', JStr ''flickr.photos.getInfo''), (''photo_id'', JNum 7),
                         (''extras'', JStr ''tags,views'')],
            req_headers = [(''X-Signed'', ''method&photo_id&extras'')], req_json = True\<rparr>"
proof -
  let ?sign = "\<lambda>q. q\<lparr>req_headers := [(''X-Signed'', join ''&'' (map fst (req_query q)))]\<rparr>"
  have c: "createClient (JFunction ?sign) None = Inr (build ?sign ''api.flickr.com'')"
    by (simp add: createClient_def)
  have a: "JFunction ?sign = JStr [] \<and> ?sign = createAPIKeyPlugin [] \<or> JFunction ?sign = JFunction ?sign"
    by simp
  from auth_decorator_applied_last [OF c a, of "''GET''" "''flickr.photos.getInfo''"
      "Some [(''photo_id'', JNum 7), (''extras'', JArray [''tags'', ''tags'', ''views''])]"]
  have "build ?sign ''api.flickr.com'' ''GET'' ''flickr.photos.getInfo''
        (Some [(''photo_id'', JNum 7), (''extras'', JArray [''tags'', ''tags'', ''views''])]) =
       Inr \<lparr>req_verb = ''GET'', req_url = ''https://api.flickr.com/services/rest'',
            req_query = [(''method'', JStr ''flickr.photos.getInfo''), (''photo_id'', JNum 7),
                         (''extras'', JStr ''tags,views'')],
            req_headers = [(''X-Signed'', ''method&photo_id&extras'')], req_json = True\<rparr>"
    by (simp add: run_client run_extras)
  with c show ?thesis
    by simp
qed

text \<open>
  C10: \<open>Flickr(auth, opts)\<close> without \<open>new\<close> constructs the client of
  \<open>createClient(auth)\<close>: the options are dropped, and every request targets
  \<open>https://api.flickr.com/services/rest\<close> whatever host and port they gave. With
  \<open>new\<close> the client is that of \<open>createClient(auth, opts)\<close>.
\<close>

theorem Flickr_without_new_discards_opts:
  "Flickr False auth opts = createClient auth None
   \<and> Flickr True auth opts = createClient auth opts
   \<and> ((auth = JStr key \<or> auth = JFunction f \<and> keeps_request f)
        \<and> call (Flickr False auth opts) verb m args = Inr r \<longrightarrow>
      req_url r = ''https://api.flickr.com/services/rest'')"
  using default_target [of auth verb m args r key f]
  by (simp add: Flickr_not_new Flickr_new)

theorem Flickr_without_new_discards_opts_witness:
  "call (Flickr False (JStr ''KEY123'') (Some \<lparr>host = Some ''example.com'', port = Some 8080\<rparr>))
       ''GET'' ''flickr.test.echo'' None =
     Inr \<lparr>req_verb = ''GET'', req_url = ''https://api.flickr.com/services/rest'',
          req_query = [(''method'', JStr ''flickr.test.echo''), (''api_key'', JStr ''KEY123'')],
          req_headers = [], req_json = True\<rparr>
   \<and> call (Flickr True (JStr ''KEY123'') (Some \<lparr>host = Some ''example.com'', port = Some 8080\<rparr>))
       ''GET'' ''flickr.test.echo'' None =
     Inr \<lparr>req_verb = ''GET'', req_url = ''https://example.com:8080/services/rest'',
          req_query = [(''method'', JStr ''flickr.test.echo''), (''api_key'', JStr ''KEY123'')],
          req_headers = [], req_json = True\<rparr>"
proof -
  note t = Flickr_without_new_discards_opts
    [of "JStr ''KEY123''" "Some \<lparr>host = Some ''example.com'', port = Some 8080\<rparr>" "''KEY123''"]
  from t have "Flickr False (JStr ''KEY123'') (Some \<lparr>host = Some ''example.com'', port = Some 8080\<rparr>)
      = createClient (JStr ''KEY123'') None"
    and "Flickr True (JStr ''KEY123'') (Some \<lparr>host = Some ''example.com'', port = Some 8080\<rparr>)
      = createClient (JStr ''KEY123'') (Some \<lparr>host = Some ''example.com'', port = Some 8080\<rparr>)"
    by blast+
  then show ?thesis
    by (simp add: run_client run_number)
qed

end
